theory Spec2Isabelle
  imports
    Complex_Main
    "HOL-Library.Char_ord"
    "HOL-Library.List_Lexorder"
    "HOL-Library.Product_Lexorder"
    "HOL-Library.Multiset"
    "HOL-Library.Sublist"
begin

section \<open>Python strings\<close>

text \<open>
  A Python \<open>str\<close> is modelled as a \<open>string\<close> (a list of 8-bit characters). The case
  mappings and the whitespace test are the ASCII ones: a character outside ASCII is left
  unchanged by \<open>lower\<close> and \<open>upper\<close> and is never whitespace. Every catalog key, country
  name and dataset identifier of the program is ASCII.
\<close>

definition is_upper :: "char \<Rightarrow> bool" where
  "is_upper c = (65 \<le> (of_char c :: nat) \<and> (of_char c :: nat) \<le> 90)"


definition lower_char :: "char \<Rightarrow> char" where
  "lower_char c = (if is_upper c then char_of ((of_char c :: nat) + 32) else c)"


definition py_lower :: "string \<Rightarrow> string" where
  "py_lower s = map lower_char s"


text \<open>\<open>str.isspace\<close> on ASCII: tab, line feed, vertical tab, form feed, carriage return,
  the four separators 0x1C..0x1F and the space.\<close>

definition is_space :: "char \<Rightarrow> bool" where
  "is_space c = (let n = (of_char c :: nat) in (9 \<le> n \<and> n \<le> 13) \<or> (28 \<le> n \<and> n \<le> 32))"

definition py_strip :: "string \<Rightarrow> string" where
  "py_strip s = rev (dropWhile is_space (rev (dropWhile is_space s)))"

text \<open>\<open>p in s\<close> for two strings: \<open>p\<close> occurs in \<open>s\<close> as a contiguous run, found by
  trying every start position from the left.\<close>

fun py_in :: "string \<Rightarrow> string \<Rightarrow> bool" where
  "py_in p [] = (p = [])"
| "py_in p (c # s) = (prefix p (c # s) \<or> py_in p s)"

section \<open>The country-code resolver (main.py, \<open>get_country_input\<close>)\<close>


text \<open>\<open>dict.get(key, default)\<close> on a dictionary given by its items.\<close>

definition dict_get :: "('k \<times> 'v) list \<Rightarrow> 'k \<Rightarrow> 'v \<Rightarrow> 'v" where
  "dict_get d k dflt = (case map_of d k of Some v \<Rightarrow> v | None \<Rightarrow> dflt)"



section \<open>Python values\<close>

text \<open>
  The values that \<open>response.json()\<close> and a parsed table hand to the adapters. A Python
  float is a rational or one of the three special values; the program never computes with
  floats, it only tests and converts them. A \<open>JDict\<close> lists the items of a dictionary
  in insertion order, looked up from the left.
\<close>

datatype pyfloat = Fin rat | PosInf | NegInf | NaN

datatype json =
    JNull
  | JBool bool
  | JInt int
  | JFloat pyfloat
  | JStr string
  | JList "json list"
  | JDict "(string \<times> json) list"

text \<open>The exceptions the adapters can meet. \<open>Raised msg\<close> is an exception of an external
  collaborator (the HTTP client, the JSON decoder, the CSV reader).\<close>

datatype error =
    AttributeError
  | TypeError
  | ValueError
  | OverflowError
  | KeyError
  | IndexError
  | Raised string

text \<open>Truth value testing (\<open>if year\<close>).\<close>

fun truthy :: "json \<Rightarrow> bool" where
  "truthy JNull = False"
| "truthy (JBool b) = b"
| "truthy (JInt i) = (i \<noteq> 0)"
| "truthy (JFloat f) = (f \<noteq> Fin 0)"
| "truthy (JStr s) = (s \<noteq> [])"
| "truthy (JList xs) = (xs \<noteq> [])"
| "truthy (JDict kvs) = (kvs \<noteq> [])"

subsection \<open>\<open>int(x)\<close>\<close>

definition is_digit :: "char \<Rightarrow> bool" where
  "is_digit c = (48 \<le> (of_char c :: nat) \<and> (of_char c :: nat) \<le> 57)"

definition digit_val :: "char \<Rightarrow> int" where
  "digit_val c = int ((of_char c :: nat) - 48)"

text \<open>The digits of a decimal literal: at least one digit, and single underscores only
  between two digits.\<close>

fun digits_of :: "string \<Rightarrow> string option" where
  "digits_of [] = None"
| "digits_of [c] = (if is_digit c then Some [c] else None)"
| "digits_of (c # d # s) =
     (if is_digit c
      then map_option ((#) c) (if d = CHR ''_'' then digits_of s else digits_of (d # s))
      else None)"

definition int_of_digits :: "string \<Rightarrow> int" where
  "int_of_digits ds = foldl (\<lambda>a c. 10 * a + digit_val c) 0 ds"

text \<open>\<open>int(s)\<close> for a string, base 10: surrounding whitespace, one optional sign, the
  digits. CPython refuses a literal of more than 4300 digits.\<close>

definition int_of_str :: "string \<Rightarrow> error + int" where
  "int_of_str s =
     (let t = py_strip s;
          neg = (case t of c # _ \<Rightarrow> c = CHR ''-'' | [] \<Rightarrow> False);
          body = (case t of c # r \<Rightarrow> if c = CHR ''-'' \<or> c = CHR ''+'' then r else t | [] \<Rightarrow> t)
      in case digits_of body of
           None \<Rightarrow> Inl ValueError
         | Some ds \<Rightarrow>
             if length ds > 4300 then Inl ValueError
             else Inr (if neg then - int_of_digits ds else int_of_digits ds))"

definition trunc :: "rat \<Rightarrow> int" where
  "trunc q = (if 0 \<le> q then \<lfloor>q\<rfloor> else \<lceil>q\<rceil>)"

fun py_int :: "json \<Rightarrow> error + int" where
  "py_int (JInt i) = Inr i"
| "py_int (JBool b) = Inr (if b then 1 else 0)"
| "py_int (JFloat (Fin q)) = Inr (trunc q)"
| "py_int (JFloat NaN) = Inl ValueError"
| "py_int (JFloat PosInf) = Inl OverflowError"
| "py_int (JFloat NegInf) = Inl OverflowError"
| "py_int (JStr s) = int_of_str s"
| "py_int JNull = Inl TypeError"
| "py_int (JList xs) = Inl TypeError"
| "py_int (JDict kvs) = Inl TypeError"

subsection \<open>Container operations\<close>

text \<open>\<open>item.get(key)\<close>: only a dictionary has the method.\<close>

fun get :: "json \<Rightarrow> string \<Rightarrow> error + json" where
  "get (JDict kvs) k = Inr (dict_get kvs k JNull)"
| "get _ k = Inl AttributeError"

text \<open>\<open>item[key]\<close> with a string key.\<close>

fun subscript_str :: "json \<Rightarrow> string \<Rightarrow> error + json" where
  "subscript_str (JDict kvs) k = (case map_of kvs k of Some v \<Rightarrow> Inr v | None \<Rightarrow> Inl KeyError)"
| "subscript_str _ k = Inl TypeError"

text \<open>\<open>data[i]\<close> with a non-negative integer index.\<close>

fun subscript_nat :: "json \<Rightarrow> nat \<Rightarrow> error + json" where
  "subscript_nat (JList xs) i = (if i < length xs then Inr (xs ! i) else Inl IndexError)"
| "subscript_nat (JStr s) i = (if i < length s then Inr (JStr [s ! i]) else Inl IndexError)"
| "subscript_nat (JDict kvs) i = Inl KeyError"
| "subscript_nat _ i = Inl TypeError"

fun py_len :: "json \<Rightarrow> error + nat" where
  "py_len (JList xs) = Inr (length xs)"
| "py_len (JStr s) = Inr (length s)"
| "py_len (JDict kvs) = Inr (length kvs)"
| "py_len _ = Inl TypeError"

text \<open>\<open>key in data\<close> with a string on the left.\<close>

fun contains_str :: "json \<Rightarrow> string \<Rightarrow> error + bool" where
  "contains_str (JDict kvs) k = Inr (map_of kvs k \<noteq> None)"
| "contains_str (JList xs) k = Inr (JStr k \<in> set xs)"
| "contains_str (JStr s) k = Inr (py_in k s)"
| "contains_str _ k = Inl TypeError"

text \<open>The items a \<open>for\<close> loop visits.\<close>

fun iter :: "json \<Rightarrow> error + json list" where
  "iter (JList xs) = Inr xs"
| "iter (JDict kvs) = Inr (map (\<lambda>kv. JStr (fst kv)) kvs)"
| "iter (JStr s) = Inr (map (\<lambda>c. JStr [c]) s)"
| "iter _ = Inl TypeError"

text \<open>\<open>pd.notna\<close> on a scalar: neither \<open>None\<close> nor NaN.\<close>

definition notna :: "json \<Rightarrow> bool" where
  "notna v = (v \<noteq> JNull \<and> v \<noteq> JFloat NaN)"

section \<open>Observation records and tables\<close>

text \<open>The dictionary each adapter appends to \<open>records\<close>. A table (a data frame of such
  rows) is the list of its rows; the empty data frame is the empty list.\<close>

record obs =
  Year :: int
  Country :: string
  KPI :: string
  Value :: json
  Source :: string

type_synonym table = "obs list"

section \<open>The outside world\<close>

text \<open>
  A GET request is its URL and its query parameters. What comes back is either an
  exception of the HTTP client (\<open>requests.get\<close> or \<open>raise_for_status\<close> raised), or a
  response, given by what the two parsers make of it: the result of \<open>response.json()\<close>
  and the rows of \<open>pd.read_csv(StringIO(response.text))\<close>, each row a dictionary from
  column names to cells. The network answers the n-th request of a run as it likes.
  A user interrupt (\<open>KeyboardInterrupt\<close>) is not part of the model.
\<close>

type_synonym request = "string \<times> (string \<times> string) list"

type_synonym frame = "(string \<times> json) list list"

datatype response =
    Failed error
  | Answered "error + json" "error + frame"

type_synonym net = "nat \<Rightarrow> request \<Rightarrow> response"

text \<open>What the program reports, line by line. Banners, progress lines and the rendered
  tables are left out.\<close>

datatype notice =
    DataUnavailable string "error option"
  | StWarning string error
  | NoDataFound
  | SelectCountry
  | SelectKPI
  | Success nat
  | ErrorOccurred error
  | Displayed "((string \<times> int) \<times> json) list"
  | Overview "((string \<times> string \<times> int) \<times> json) list"

record world =
  requests :: "request list"
  printed :: "notice list"

definition requests_get :: "net \<Rightarrow> request \<Rightarrow> world \<Rightarrow> response \<times> world" where
  "requests_get net req w = (net (length (requests w)) req, w\<lparr>requests := requests w @ [req]\<rparr>)"

definition report :: "notice \<Rightarrow> world \<Rightarrow> world" where
  "report n w = w\<lparr>printed := printed w @ [n]\<rparr>"


section \<open>Source adapters\<close>

text \<open>The loop \<open>for item in items: ... records.append(...)\<close>: \<open>step\<close> gives the records
  one item appends, or the exception it raises, which ends the loop.\<close>

fun collect :: "('a \<Rightarrow> error + table) \<Rightarrow> 'a list \<Rightarrow> table \<Rightarrow> error + table" where
  "collect step [] records = Inr records"
| "collect step (item # items) records =
     (case step item of
        Inl e \<Rightarrow> Inl e
      | Inr new \<Rightarrow> collect step items (records @ new))"

definition api_urls_WHO_GHO :: string where
  "api_urls_WHO_GHO = ''https://ghoapi.azureedge.net/api/''"

definition api_urls_WORLD_BANK :: string where
  "api_urls_WORLD_BANK = ''https://api.worldbank.org/v2/''"

definition api_urls_OECD :: string where
  "api_urls_OECD = ''https://sdmx.oecd.org/public/rest/data/''"

subsection \<open>WHO GHO\<close>

definition who_gho_item :: "string \<Rightarrow> string \<Rightarrow> json \<Rightarrow> error + table" where
  "who_gho_item country_code kpi_name item =
     (case get item ''SpatialDim'' of
        Inl e \<Rightarrow> Inl e
      | Inr sd \<Rightarrow>
          if sd = JStr country_code then
            (case get item ''TimeDim'' of
               Inl e \<Rightarrow> Inl e
             | Inr year \<Rightarrow>
                 if truthy year then
                   (case py_int year of
                      Inl e \<Rightarrow> Inl e
                    | Inr y \<Rightarrow>
                        if y \<ge> 2015 then
                          (case get item ''NumericValue'' of
                             Inl e \<Rightarrow> Inl e
                           | Inr v \<Rightarrow>
                               Inr [\<lparr>Year = y, Country = country_code, KPI = kpi_name,
                                     Value = v, Source = ''WHO GHO''\<rparr>])
                        else Inr [])
                 else Inr [])
          else Inr [])"

definition who_gho_records :: "string \<Rightarrow> string \<Rightarrow> json \<Rightarrow> error + table" where
  "who_gho_records country_code kpi_name data =
     (case contains_str data ''value'' of
        Inl e \<Rightarrow> Inl e
      | Inr False \<Rightarrow> Inr []
      | Inr True \<Rightarrow>
          (case subscript_str data ''value'' of
             Inl e \<Rightarrow> Inl e
           | Inr v \<Rightarrow>
               (case iter v of
                  Inl e \<Rightarrow> Inl e
                | Inr items \<Rightarrow> collect (who_gho_item country_code kpi_name) items [])))"

definition who_gho_request :: "string \<Rightarrow> request" where
  "who_gho_request indicator_code = (api_urls_WHO_GHO @ indicator_code, [])"

text \<open>The body of the \<open>try\<close> block, after the GET: the records, or the exception.\<close>

definition who_gho_try :: "string \<Rightarrow> string \<Rightarrow> response \<Rightarrow> error + table" where
  "who_gho_try country_code kpi_name resp =
     (case resp of
        Failed e \<Rightarrow> Inl e
      | Answered js csv \<Rightarrow>
          (case js of
             Inl e \<Rightarrow> Inl e
           | Inr data \<Rightarrow> who_gho_records country_code kpi_name data))"

subsection \<open>World Bank\<close>

definition world_bank_item :: "string \<Rightarrow> string \<Rightarrow> json \<Rightarrow> error + table" where
  "world_bank_item country_code kpi_name item =
     (case get item ''value'' of
        Inl e \<Rightarrow> Inl e
      | Inr v0 \<Rightarrow>
          if v0 \<noteq> JNull then
            (case subscript_str item ''date'' of
               Inl e \<Rightarrow> Inl e
             | Inr d \<Rightarrow>
                 (case py_int d of
                    Inl e \<Rightarrow> Inl e
                  | Inr y \<Rightarrow>
                      (case subscript_str item ''value'' of
                         Inl e \<Rightarrow> Inl e
                       | Inr v \<Rightarrow>
                           Inr [\<lparr>Year = y, Country = country_code, KPI = kpi_name,
                                 Value = v, Source = ''World Bank''\<rparr>])))
          else Inr [])"

definition world_bank_records :: "string \<Rightarrow> string \<Rightarrow> json \<Rightarrow> error + table" where
  "world_bank_records country_code kpi_name data =
     (case py_len data of
        Inl e \<Rightarrow> Inl e
      | Inr n \<Rightarrow>
          if n > 1 then
            (case subscript_nat data 1 of
               Inl e \<Rightarrow> Inl e
             | Inr d1 \<Rightarrow>
                 if truthy d1 then
                   (case iter d1 of
                      Inl e \<Rightarrow> Inl e
                    | Inr items \<Rightarrow> collect (world_bank_item country_code kpi_name) items [])
                 else Inr [])
          else Inr [])"

definition world_bank_request :: "string \<Rightarrow> string \<Rightarrow> request" where
  "world_bank_request country_code indicator_code =
     (api_urls_WORLD_BANK @ ''country/'' @ country_code @ ''/indicator/'' @ indicator_code,
      [(''format'', ''json''), (''date'', ''2015:2024''), (''per_page'', ''100'')])"

definition world_bank_try :: "string \<Rightarrow> string \<Rightarrow> response \<Rightarrow> error + table" where
  "world_bank_try country_code kpi_name resp =
     (case resp of
        Failed e \<Rightarrow> Inl e
      | Answered js csv \<Rightarrow>
          (case js of
             Inl e \<Rightarrow> Inl e
           | Inr data \<Rightarrow> world_bank_records country_code kpi_name data))"

subsection \<open>OECD\<close>

definition health_prot :: string where
  "health_prot = ''OECD.ELS.HD,DSD_HEALTH_PROT@DF_HEALTH_PROT''"

definition health_stat :: string where
  "health_stat = ''OECD.ELS.HD,DSD_HEALTH_STAT@DF_HEALTH_STAT''"

definition oecd_dataset :: "string \<Rightarrow> string" where
  "oecd_dataset kpi_name =
     (if py_in ''insurance'' (py_lower kpi_name) then health_prot else health_stat)"

definition oecd_request :: "string \<Rightarrow> string \<Rightarrow> string \<Rightarrow> request" where
  "oecd_request country_code kpi_name indicator_code =
     (api_urls_OECD @ oecd_dataset kpi_name @ ''/'' @ country_code @ ''.'' @ indicator_code @ ''.._T'',
      [(''startPeriod'', ''2015''), (''endPeriod'', ''2024''),
       (''dimensionAtObservation'', ''AllDimensions''), (''format'', ''csvfilewithlabels'')])"

definition oecd_row :: "string \<Rightarrow> string \<Rightarrow> (string \<times> json) list \<Rightarrow> error + table" where
  "oecd_row country_code kpi_name row =
     (if notna (dict_get row ''OBS_VALUE'' JNull) then
        (let year = dict_get row ''TIME_PERIOD'' JNull in
         if truthy year then
           (case py_int year of
              Inl e \<Rightarrow> Inl e
            | Inr y \<Rightarrow>
                if y \<ge> 2015 then
                  (case map_of row ''OBS_VALUE'' of
                     None \<Rightarrow> Inl KeyError
                   | Some v \<Rightarrow>
                       Inr [\<lparr>Year = y, Country = country_code, KPI = kpi_name,
                             Value = v, Source = ''OECD''\<rparr>])
                else Inr [])
         else Inr [])
      else Inr [])"

definition oecd_try :: "string \<Rightarrow> string \<Rightarrow> response \<Rightarrow> error + table" where
  "oecd_try country_code kpi_name resp =
     (case resp of
        Failed e \<Rightarrow> Inl e
      | Answered js csv \<Rightarrow>
          (case csv of
             Inl e \<Rightarrow> Inl e
           | Inr df \<Rightarrow> collect (oecd_row country_code kpi_name) df []))"

subsection \<open>The adapters of main.py\<close>

text \<open>After the \<open>try\<close> body: an exception is caught and reported with the indicator's
  name, an empty list of records is reported with the indicator's name, and in both cases
  the empty table is returned.\<close>

definition finish :: "string \<Rightarrow> error + table \<Rightarrow> world \<Rightarrow> table \<times> world" where
  "finish kpi_name r w =
     (case r of
        Inl e \<Rightarrow> ([], report (DataUnavailable kpi_name (Some e)) w)
      | Inr records \<Rightarrow>
          if records = [] then ([], report (DataUnavailable kpi_name None) w)
          else (records, w))"

definition extract_who_gho_data ::
  "net \<Rightarrow> string \<Rightarrow> string \<Rightarrow> string \<Rightarrow> world \<Rightarrow> table \<times> world" where
  "extract_who_gho_data net country_code kpi_name indicator_code w =
     (let (resp, w1) = requests_get net (who_gho_request indicator_code) w
      in finish kpi_name (who_gho_try country_code kpi_name resp) w1)"

definition extract_world_bank_data ::
  "net \<Rightarrow> string \<Rightarrow> string \<Rightarrow> string \<Rightarrow> world \<Rightarrow> table \<times> world" where
  "extract_world_bank_data net country_code kpi_name indicator_code w =
     (let (resp, w1) = requests_get net (world_bank_request country_code indicator_code) w
      in finish kpi_name (world_bank_try country_code kpi_name resp) w1)"

definition extract_oecd_data ::
  "net \<Rightarrow> string \<Rightarrow> string \<Rightarrow> string \<Rightarrow> world \<Rightarrow> table \<times> world" where
  "extract_oecd_data net country_code kpi_name indicator_code w =
     (let (resp, w1) = requests_get net (oecd_request country_code kpi_name indicator_code) w
      in finish kpi_name (oecd_try country_code kpi_name resp) w1)"

subsection \<open>The adapters of strtest.py\<close>





subsection \<open>The adapters by source\<close>

text \<open>The three data sources, the keys of \<open>api_urls\<close> and of \<open>selected_kpis\<close>. The
  callers name each adapter in turn; here the adapter, its request and its \<open>try\<close> body
  are looked up by source.\<close>

datatype source = WHO_GHO | WORLD_BANK | OECD

fun request_of :: "source \<Rightarrow> string \<Rightarrow> string \<Rightarrow> string \<Rightarrow> request" where
  "request_of WHO_GHO country_code kpi_name indicator_code = who_gho_request indicator_code"
| "request_of WORLD_BANK country_code kpi_name indicator_code =
     world_bank_request country_code indicator_code"
| "request_of OECD country_code kpi_name indicator_code =
     oecd_request country_code kpi_name indicator_code"

fun try_body :: "source \<Rightarrow> string \<Rightarrow> string \<Rightarrow> response \<Rightarrow> error + table" where
  "try_body WHO_GHO = who_gho_try"
| "try_body WORLD_BANK = world_bank_try"
| "try_body OECD = oecd_try"

fun adapter :: "source \<Rightarrow> net \<Rightarrow> string \<Rightarrow> string \<Rightarrow> string \<Rightarrow> world \<Rightarrow> table \<times> world" where
  "adapter WHO_GHO = extract_who_gho_data"
| "adapter WORLD_BANK = extract_world_bank_data"
| "adapter OECD = extract_oecd_data"


section \<open>Indicator catalogs\<close>

text \<open>The dictionaries of \<open>HealthKPIExtractor.__init__\<close>, items in source order: the
  three catalogs of main.py, and the WHO GHO catalog and the country table of strtest.py
  (its World Bank and OECD catalogs are those of main.py).\<close>

definition who_gho_kpis :: "(string \<times> string) list" where
  "who_gho_kpis =
    [(''% births attended by skilled health personnel'', ''MDG_0000000025''),
     (''Coverage of essential health services (UHC index)'', ''XX''),
     (''DTP3 immunization coverage (%)'', ''WHS4_100''),
     (''Current health expenditure (% of GDP)'', ''GHED_CHEGDP_SHA2011''),
     (''Per capita health expenditure (USD)'', ''GHED_CHE_pc_US_SHA2011''),
     (''Out-of-pocket health spending (% of total)'', ''SDGOOP''),
     (''Domestic general government health expenditure (GGHE-D) as percentage of GDP'', ''GHED_GGHE-DCHE_SHA2011''),
     (''Prevalence of overweight and obesity'', ''EQ_OVERWEIGHTADULT''),
     (''Raised blood pressure (SBP>=140 OR DBP>=90) (age-standardized estimate)'', ''BP_04''),
     (''Age-standardized DALYs, diabetes mellitus, per 100,000'', ''SA_0000001421'')]"

definition world_bank_kpis :: "(string \<times> string) list" where
  "world_bank_kpis =
    [(''% population with access to basic sanitation'', ''SH.STA.BASS.ZS''),
     (''Life expectancy at birth'', ''SP.DYN.LE00.IN''),
     (''Under-5 mortality rate (per 1,000)'', ''SH.DYN.MORT''),
     (''Maternal mortality ratio (per 100,000)'', ''SH.STA.MMRT''),
     (''Infant mortality rate (per 1,000)'', ''SP.DYN.IMRT.IN''),
     (''Neonatal mortality rate'', ''SH.DYN.NMRT''),
     (''Suicide mortality rate'', ''SH.STA.SUIC.P5'')]"

definition oecd_kpis :: "(string \<times> string) list" where
  "oecd_kpis =
    [(''Unmet need for medical care (% reporting delay or avoidance)'', ''UNMET_NEED_MED_CARE''),
     (''% population with health insurance'', ''HEALTH_INSURANCE_COV''),
     (''Expenditure on pharmaceuticals per capita'', ''PHARM_EXP_PC_USD''),
     (''Expenditure on inpatient care (% of total)'', ''INPATIENT_CARE_SHARE''),
     (''Preventive care spending (% of total health spending)'', ''PREVENT_CARE_SHARE''),
     (''ICU beds per 100,000 (select countries)'', ''ICU_BEDS_PER_100K''),
     (''Medical technology density (MRI/CT scanners per million)'', ''MED_TECH_DENSITY''),
     (''Hospital beds by function of healthcare'', ''HOSP_BEDS_FUNC'')]"



text \<open>The catalogs by source: \<open>kpis\<close> for main.py, \<open>st_kpis\<close> for strtest.py.\<close>

fun kpis :: "source \<Rightarrow> (string \<times> string) list" where
  "kpis WHO_GHO = who_gho_kpis"
| "kpis WORLD_BANK = world_bank_kpis"
| "kpis OECD = oecd_kpis"


section \<open>Aggregator\<close>

text \<open>
  \<open>selected_kpis\<close> is a dictionary with the three sources as keys: a function from
  sources to lists of KPI names. One \<open>for kpi in selected_kpis[source]\<close> loop looks the
  indicator code up (a name outside the catalog raises \<open>KeyError\<close>, which nothing
  catches), calls the adapter and appends its table to \<open>all_data\<close> unless it is empty.
  The pause between two calls has no effect on the result.
\<close>

type_synonym adapter_fn = "string \<Rightarrow> string \<Rightarrow> string \<Rightarrow> world \<Rightarrow> table \<times> world"

fun extract_kpis ::
  "adapter_fn \<Rightarrow> (string \<times> string) list \<Rightarrow> string \<Rightarrow> string list \<Rightarrow> table list \<Rightarrow> world \<Rightarrow>
     (error + table list) \<times> world" where
  "extract_kpis call codes country_code [] all_data w = (Inr all_data, w)"
| "extract_kpis call codes country_code (kpi # rest) all_data w =
     (case map_of codes kpi of
        None \<Rightarrow> (Inl KeyError, w)
      | Some indicator_code \<Rightarrow>
          (case call country_code kpi indicator_code w of
             (data, w1) \<Rightarrow>
               extract_kpis call codes country_code rest
                 (if data \<noteq> [] then all_data @ [data] else all_data) w1))"

text \<open>The three loops in a row: WHO GHO, World Bank, OECD.\<close>

definition extract_sources ::
  "(source \<Rightarrow> adapter_fn) \<Rightarrow> (source \<Rightarrow> (string \<times> string) list) \<Rightarrow> string \<Rightarrow>
     (source \<Rightarrow> string list) \<Rightarrow> table list \<Rightarrow> world \<Rightarrow> (error + table list) \<times> world" where
  "extract_sources call catalog country_code selected_kpis all_data w =
     (case extract_kpis (call WHO_GHO) (catalog WHO_GHO) country_code
             (selected_kpis WHO_GHO) all_data w of
        (Inl e, w1) \<Rightarrow> (Inl e, w1)
      | (Inr d1, w1) \<Rightarrow>
          (case extract_kpis (call WORLD_BANK) (catalog WORLD_BANK) country_code
                  (selected_kpis WORLD_BANK) d1 w1 of
             (Inl e, w2) \<Rightarrow> (Inl e, w2)
           | (Inr d2, w2) \<Rightarrow>
               extract_kpis (call OECD) (catalog OECD) country_code
                 (selected_kpis OECD) d2 w2))"

text \<open>\<open>pd.concat(all_data, ignore_index=True)\<close> followed by \<open>sort_values\<close> on several
  columns, which is a stable sort on the tuple of those columns.\<close>

definition sort_kpi_year :: "table \<Rightarrow> table" where
  "sort_kpi_year df = sort_key (\<lambda>r. (KPI r, Year r)) df"


text \<open>main.py, \<open>extract_all_data\<close>: one country.\<close>

definition extract_all_data ::
  "net \<Rightarrow> (source \<Rightarrow> (string \<times> string) list) \<Rightarrow> string \<Rightarrow> (source \<Rightarrow> string list) \<Rightarrow> world \<Rightarrow>
     (error + table) \<times> world" where
  "extract_all_data net catalog country_code selected_kpis w =
     (case extract_sources (\<lambda>src. adapter src net) catalog country_code selected_kpis [] w of
        (Inl e, w1) \<Rightarrow> (Inl e, w1)
      | (Inr all_data, w1) \<Rightarrow>
          (Inr (if all_data \<noteq> [] then sort_kpi_year (concat all_data) else []), w1))"



section \<open>Presenter\<close>

text \<open>
  \<open>df.pivot_table(index, columns, values='Value', aggfunc='first')\<close>: the rows are
  grouped by their (index, columns) key, each group keeps its values in table order, the
  groups are sorted by key, \<open>first\<close> takes from each group its first value that is not
  null, and a group with none is dropped. The pivot is given by its cells, keyed by
  (index, columns); a key without a cell shows as NaN or is not shown.
\<close>

fun group_add :: "'k \<Rightarrow> json \<Rightarrow> ('k \<times> json list) list \<Rightarrow> ('k \<times> json list) list" where
  "group_add k v [] = [(k, [v])]"
| "group_add k v ((k', vs) # groups) =
     (if k' = k then (k', vs @ [v]) # groups else (k', vs) # group_add k v groups)"

definition groupby :: "(obs \<Rightarrow> 'k::linorder) \<Rightarrow> table \<Rightarrow> ('k \<times> json list) list" where
  "groupby key df = sort_key fst (foldl (\<lambda>groups r. group_add (key r) (Value r) groups) [] df)"

definition agg_first :: "('k \<times> json list) list \<Rightarrow> ('k \<times> json option) list" where
  "agg_first groups = map (\<lambda>(k, vs). (k, find notna vs)) groups"

definition pivot_table_first :: "(obs \<Rightarrow> 'k::linorder) \<Rightarrow> table \<Rightarrow> ('k \<times> json) list" where
  "pivot_table_first key df =
     List.map_filter (\<lambda>(k, c). map_option (Pair k) c) (agg_first (groupby key df))"

text \<open>The two pivots of the program: KPI against Year (main.py) and KPI against Country
  and Year (strtest.py).\<close>

definition pivot_kpi_year :: "table \<Rightarrow> ((string \<times> int) \<times> json) list" where
  "pivot_kpi_year df = pivot_table_first (\<lambda>r. (KPI r, Year r)) df"

definition pivot_kpi_country_year :: "table \<Rightarrow> ((string \<times> string \<times> int) \<times> json) list" where
  "pivot_kpi_country_year df = pivot_table_first (\<lambda>r. (KPI r, Country r, Year r)) df"


section \<open>The command-line run (main.py)\<close>








section \<open>The dashboard run (strtest.py)\<close>




section \<open>Vocabulary of the specification\<close>

text \<open>The failure modes of an adapter, read off the outcome of its \<open>try\<close> body: an
  exception (the HTTP client's, a parser's, or one met while reading the payload), or a
  well-formed response with no matching record.\<close>

definition failed :: "error + table \<Rightarrow> bool" where
  "failed r = (case r of Inl e \<Rightarrow> True | Inr records \<Rightarrow> records = [])"

text \<open>\<open>pat\<close> occurs in \<open>s\<close> when letter case is ignored: at some position, the next
  characters of \<open>s\<close> are those of \<open>pat\<close> up to case.\<close>

definition contains_ci :: "string \<Rightarrow> string \<Rightarrow> bool" where
  "contains_ci pat s =
     list_ex (\<lambda>i. map lower_char (take (length pat) (drop i s)) = map lower_char pat)
       [0 ..< Suc (length s)]"

text \<open>A WHO GHO observation and the record it is mapped to.\<close>

definition who_gho_maps :: "string \<Rightarrow> json \<Rightarrow> obs \<Rightarrow> bool" where
  "who_gho_maps kpi_name item r =
     (get item ''SpatialDim'' = Inr (JStr (Country r)) \<and>
      (case get item ''TimeDim'' of Inr year \<Rightarrow> py_int year = Inr (Year r) | Inl e \<Rightarrow> False) \<and>
      get item ''NumericValue'' = Inr (Value r) \<and>
      KPI r = kpi_name \<and> Source r = ''WHO GHO'')"


definition world_bank_maps :: "string \<Rightarrow> string \<Rightarrow> json \<Rightarrow> obs \<Rightarrow> bool" where
  "world_bank_maps country_code kpi_name item r =
     ((case subscript_str item ''date'' of Inr d \<Rightarrow> py_int d = Inr (Year r) | Inl e \<Rightarrow> False) \<and>
      subscript_str item ''value'' = Inr (Value r) \<and>
      Country r = country_code \<and> KPI r = kpi_name \<and> Source r = ''World Bank'')"











section \<open>Example responses\<close>

text \<open>Networks that answer every request alike, and the world before the first request.\<close>

definition json_net :: "json \<Rightarrow> net" where
  "json_net data = (\<lambda>n req. Answered (Inr data) (Inl (Raised ''not a table'')))"

definition csv_net :: "frame \<Rightarrow> net" where
  "csv_net df = (\<lambda>n req. Answered (Inl (Raised ''not JSON'')) (Inr df))"


definition world0 :: world where
  "world0 = \<lparr>requests = [], printed = []\<rparr>"

text \<open>A World Bank payload with observations for 2010, 2015 and 2024.\<close>

definition wb_years_payload :: json where
  "wb_years_payload =
     JList [JDict [(''page'', JInt 1)],
       JList [JDict [(''date'', JStr ''2010''), (''value'', JInt 66)],
              JDict [(''date'', JStr ''2015''), (''value'', JInt 68)],
              JDict [(''date'', JStr ''2024''), (''value'', JInt 70)]]]"


text \<open>A WHO GHO payload with observations of three countries.\<close>

definition who_countries_payload :: json where
  "who_countries_payload =
     JDict [(''value'',
       JList [JDict [(''SpatialDim'', JStr ''IND''), (''TimeDim'', JInt 2016), (''NumericValue'', JInt 81)],
              JDict [(''SpatialDim'', JStr ''USA''), (''TimeDim'', JInt 2016), (''NumericValue'', JInt 99)],
              JDict [(''SpatialDim'', JStr ''IND''), (''TimeDim'', JInt 2010), (''NumericValue'', JInt 52)],
              JDict [(''SpatialDim'', JStr ''DEU''), (''TimeDim'', JInt 2020), (''NumericValue'', JInt 98)],
              JDict [(''SpatialDim'', JStr ''IND''), (''TimeDim'', JInt 2024), (''NumericValue'', JInt 89)]])]"

text \<open>A WHO GHO payload whose one observation has no numeric value.\<close>

definition who_null_payload :: json where
  "who_null_payload =
     JDict [(''value'',
       JList [JDict [(''SpatialDim'', JStr ''IND''), (''TimeDim'', JInt 2020), (''NumericValue'', JNull)]])]"







text \<open>Two records in the same pivot cell with different values, and the same with a
  null value first.\<close>

definition two_values_table :: table where
  "two_values_table =
     [\<lparr>Year = 2020, Country = ''IND'', KPI = ''DTP3 immunization coverage (%)'',
        Value = JInt 7, Source = ''WHO GHO''\<rparr>,
      \<lparr>Year = 2020, Country = ''IND'', KPI = ''DTP3 immunization coverage (%)'',
        Value = JInt 9, Source = ''WHO GHO''\<rparr>]"

definition null_first_table :: table where
  "null_first_table =
     [\<lparr>Year = 2020, Country = ''IND'', KPI = ''DTP3 immunization coverage (%)'',
        Value = JNull, Source = ''WHO GHO''\<rparr>,
      \<lparr>Year = 2020, Country = ''IND'', KPI = ''DTP3 immunization coverage (%)'',
        Value = JInt 9, Source = ''WHO GHO''\<rparr>]"

text \<open>A WHO GHO payload with two observations of India for 2020, the first without a
  numeric value, and the selection of that one WHO GHO indicator.\<close>

definition who_null_then_value_payload :: json where
  "who_null_then_value_payload =
     JDict [(''value'',
       JList [JDict [(''SpatialDim'', JStr ''IND''), (''TimeDim'', JInt 2020), (''NumericValue'', JNull)],
              JDict [(''SpatialDim'', JStr ''IND''), (''TimeDim'', JInt 2020), (''NumericValue'', JInt 9)]])]"

fun who_only :: "source \<Rightarrow> string list" where
  "who_only WHO_GHO = [''DTP3 immunization coverage (%)'']"
| "who_only WORLD_BANK = []"
| "who_only OECD = []"

text \<open>An OECD table with rows for 2010, 2015 and 2024 and a row without a value.\<close>

definition oecd_years_frame :: frame where
  "oecd_years_frame =
     [[(''TIME_PERIOD'', JInt 2010), (''OBS_VALUE'', JInt 30)],
      [(''TIME_PERIOD'', JInt 2015), (''OBS_VALUE'', JInt 31)],
      [(''TIME_PERIOD'', JInt 2020), (''OBS_VALUE'', JFloat NaN)],
      [(''TIME_PERIOD'', JInt 2024), (''OBS_VALUE'', JInt 36)]]"

section \<open>Properties of the string operations\<close>





section \<open>Properties of the adapters\<close>


lemma adapter_unfold:
  "adapter src net cc kpi code w =
     finish kpi (try_body src cc kpi (net (length (requests w)) (request_of src cc kpi code)))
       (w\<lparr>requests := requests w @ [request_of src cc kpi code]\<rparr>)"
  by (cases src)
    (simp_all add: extract_who_gho_data_def extract_world_bank_data_def extract_oecd_data_def
      requests_get_def)


lemma adapter_mem:
  assumes "r \<in> set (fst (adapter src net cc kpi code w))"
  shows "\<exists>rs. try_body src cc kpi (net (length (requests w)) (request_of src cc kpi code)) = Inr rs \<and>
              r \<in> set rs"
  using assms unfolding adapter_unfold
  by (cases "try_body src cc kpi (net (length (requests w)) (request_of src cc kpi code))")
    (auto simp: finish_def split: if_splits)

lemma collect_mem:
  "collect step items acc = Inr rs \<Longrightarrow> r \<in> set rs \<Longrightarrow>
     r \<in> set acc \<or> (\<exists>item \<in> set items. \<exists>new. step item = Inr new \<and> r \<in> set new)"
proof (induction items arbitrary: acc)
  case Nil
  then show ?case by simp
next
  case (Cons item items)
  from Cons.prems(1) obtain new where new: "step item = Inr new"
    and rest: "collect step items (acc @ new) = Inr rs"
    by (auto split: sum.splits)
  from Cons.IH [OF rest Cons.prems(2)] new show ?case by auto
qed

lemma who_gho_item_sound:
  "who_gho_item cc kpi item = Inr new \<Longrightarrow> r \<in> set new \<Longrightarrow>
     who_gho_maps kpi item r \<and> Country r = cc \<and> Year r \<ge> 2015"
  by (auto simp: who_gho_item_def who_gho_maps_def split: sum.splits if_splits)

lemma oecd_row_sound:
  "oecd_row cc kpi row = Inr new \<Longrightarrow> r \<in> set new \<Longrightarrow>
     map_of row ''OBS_VALUE'' = Some (Value r) \<and> notna (Value r) \<and>
     (\<exists>year. map_of row ''TIME_PERIOD'' = Some year \<and> py_int year = Inr (Year r)) \<and>
     Country r = cc \<and> KPI r = kpi \<and> Source r = ''OECD'' \<and> Year r \<ge> 2015"
  by (auto simp: oecd_row_def dict_get_def Let_def split: sum.splits if_splits option.splits)

lemma world_bank_item_sound:
  "world_bank_item cc kpi item = Inr new \<Longrightarrow> r \<in> set new \<Longrightarrow>
     world_bank_maps cc kpi item r \<and> Value r \<noteq> JNull"
  by (cases item)
    (auto simp: world_bank_item_def world_bank_maps_def dict_get_def
      split: sum.splits if_splits option.splits)

lemma who_gho_try_mem:
  assumes "who_gho_try cc kpi resp = Inr rs" and "r \<in> set rs"
  shows "\<exists>data csv v items item.
           resp = Answered (Inr data) csv \<and> subscript_str data ''value'' = Inr v \<and>
           iter v = Inr items \<and> item \<in> set items \<and>
           who_gho_item cc kpi item \<noteq> Inl e \<and>
           (\<exists>new. who_gho_item cc kpi item = Inr new \<and> r \<in> set new)"
proof -
  from assms(1) obtain data csv where resp: "resp = Answered (Inr data) csv"
    and recs: "who_gho_records cc kpi data = Inr rs"
    by (auto simp: who_gho_try_def split: response.splits sum.splits)
  from recs assms(2) obtain v items where v: "subscript_str data ''value'' = Inr v"
    and items: "iter v = Inr items"
    and coll: "collect (who_gho_item cc kpi) items [] = Inr rs"
    by (auto simp: who_gho_records_def split: sum.splits bool.splits)
  from collect_mem [OF coll assms(2)] obtain item new where
    "item \<in> set items" "who_gho_item cc kpi item = Inr new" "r \<in> set new"
    by auto
  with resp v items show ?thesis by auto
qed



lemma failure_modes:
  "failed (try_body src cc kpi (Failed e))"
  "failed (try_body WHO_GHO cc kpi (Answered (Inl e) csv))"
  "failed (try_body WORLD_BANK cc kpi (Answered (Inl e) csv))"
  "failed (try_body OECD cc kpi (Answered js (Inl e)))"
  by (cases src; simp add: failed_def who_gho_try_def world_bank_try_def oecd_try_def)+

lemma adapter_year_ge_2015:
  assumes "r \<in> set (fst (adapter src net cc kpi code w))" and "src \<noteq> WORLD_BANK"
  shows "Year r \<ge> 2015"
proof (cases src)
  case WHO_GHO
  with assms(1) obtain rs where
    "who_gho_try cc kpi (net (length (requests w)) (who_gho_request code)) = Inr rs" "r \<in> set rs"
    using adapter_mem [of r WHO_GHO net cc kpi code w] by auto
  from who_gho_try_mem [OF this] who_gho_item_sound show ?thesis by blast
next
  case WORLD_BANK
  with assms(2) show ?thesis by simp
next
  case OECD
  with assms(1) obtain rs where
    "oecd_try cc kpi (net (length (requests w)) (oecd_request cc kpi code)) = Inr rs" "r \<in> set rs"
    using adapter_mem [of r OECD net cc kpi code w] by auto
  then obtain df where "collect (oecd_row cc kpi) df [] = Inr rs"
    by (auto simp: oecd_try_def split: response.splits sum.splits)
  from collect_mem [OF this \<open>r \<in> set rs\<close>] oecd_row_sound show ?thesis by fastforce
qed

lemma prefix_iff_take: "prefix p s \<longleftrightarrow> take (length p) s = p"
  by (metis append_eq_conv_conj prefix_def)

lemma py_in_iff: "py_in p s \<longleftrightarrow> (\<exists>i < Suc (length s). take (length p) (drop i s) = p)"
proof (induction s)
  case Nil
  then show ?case by auto
next
  case (Cons c s)
  have "(\<exists>i < Suc (length (c # s)). take (length p) (drop i (c # s)) = p) \<longleftrightarrow>
        take (length p) (c # s) = p \<or> (\<exists>i < Suc (length s). take (length p) (drop i s) = p)"
    by (subst less_Suc_eq_0_disj) auto
  with Cons show ?case by (simp add: prefix_iff_take)
qed

lemma py_in_lower:
  assumes "map lower_char pat = pat"
  shows "py_in pat (py_lower s) \<longleftrightarrow> contains_ci pat s"
  using assms
  by (simp add: py_in_iff contains_ci_def py_lower_def list_ex_iff take_map drop_map
      del: upt_Suc) (metis atLeast0LessThan lessThan_iff)

lemma adapter_value_present:
  assumes "r \<in> set (fst (adapter src net cc kpi code w))"
  shows "(src = WORLD_BANK \<longrightarrow> Value r \<noteq> JNull) \<and> (src = OECD \<longrightarrow> notna (Value r))"
proof (cases src)
  case WHO_GHO
  then show ?thesis by simp
next
  case WORLD_BANK
  with assms obtain rs where
    rs: "world_bank_try cc kpi (net (length (requests w)) (world_bank_request cc code)) = Inr rs"
    and r: "r \<in> set rs"
    using adapter_mem [of r WORLD_BANK net cc kpi code w] by auto
  from rs obtain items where "collect (world_bank_item cc kpi) items [] = Inr rs \<or> rs = []"
    by (auto simp: world_bank_try_def world_bank_records_def
        split: response.splits sum.splits if_splits)
  with r have "\<exists>items. collect (world_bank_item cc kpi) items [] = Inr rs" by auto
  then obtain items where "collect (world_bank_item cc kpi) items [] = Inr rs" ..
  from collect_mem [OF this r] world_bank_item_sound WORLD_BANK show ?thesis by fastforce
next
  case OECD
  with assms obtain rs where
    "oecd_try cc kpi (net (length (requests w)) (oecd_request cc kpi code)) = Inr rs" "r \<in> set rs"
    using adapter_mem [of r OECD net cc kpi code w] by auto
  then obtain df where "collect (oecd_row cc kpi) df [] = Inr rs"
    by (auto simp: oecd_try_def split: response.splits sum.splits)
  from collect_mem [OF this \<open>r \<in> set rs\<close>] oecd_row_sound OECD show ?thesis by fastforce
qed

lemma oecd_adapter_example:
  "fst (extract_oecd_data (csv_net oecd_years_frame) ''DEU''
          ''% population with health insurance'' ''HEALTH_INSURANCE_COV'' world0) =
     [\<lparr>Year = 2015, Country = ''DEU'', KPI = ''% population with health insurance'',
        Value = JInt 31, Source = ''OECD''\<rparr>,
      \<lparr>Year = 2024, Country = ''DEU'', KPI = ''% population with health insurance'',
        Value = JInt 36, Source = ''OECD''\<rparr>]"
  by code_simp

section \<open>Properties of the aggregator\<close>








section \<open>Properties of the presenter and of the runs\<close>

lemma map_of_group_add:
  "map_of (group_add k v gs) k' =
     (if k' = k then Some ((case map_of gs k of None \<Rightarrow> [] | Some vs \<Rightarrow> vs) @ [v])
      else map_of gs k')"
  by (induction gs) auto

lemma keys_group_add: "k' \<in> fst ` set (group_add k v gs) \<longleftrightarrow> k' = k \<or> k' \<in> fst ` set gs"
  by (induction gs) force+

lemma distinct_group_add:
  "distinct (map fst gs) \<Longrightarrow> distinct (map fst (group_add k v gs))"
proof (induction gs)
  case Nil
  then show ?case by simp
next
  case (Cons g gs)
  obtain k' vs where g: "g = (k', vs)" by (cases g)
  from Cons.prems g have notin: "k' \<notin> fst ` set gs" and d: "distinct (map fst gs)"
    by auto
  show ?case
  proof (cases "k' = k")
    case True
    with Cons.prems g show ?thesis by simp
  next
    case False
    with notin have "k' \<notin> fst ` set (group_add k v gs)"
      by (simp add: keys_group_add)
    with False g Cons.IH [OF d] show ?thesis by simp
  qed
qed

lemma distinct_groups:
  "distinct (map fst gs) \<Longrightarrow>
     distinct (map fst (foldl (\<lambda>groups r. group_add (key r) (Value r) groups) gs df))"
  by (induction df arbitrary: gs) (simp_all add: distinct_group_add)

lemma map_of_groups:
  "map_of (foldl (\<lambda>groups r. group_add (key r) (Value r) groups) gs df) k =
     (case map_of gs k of
        None \<Rightarrow> (if filter (\<lambda>r. key r = k) df = [] then None
                  else Some (map Value (filter (\<lambda>r. key r = k) df)))
      | Some vs \<Rightarrow> Some (vs @ map Value (filter (\<lambda>r. key r = k) df)))"
proof (induction df arbitrary: gs)
  case Nil
  then show ?case by (simp split: option.splits)
next
  case (Cons r df)
  show ?case
  proof (cases "key r = k")
    case True
    then show ?thesis
      by (cases "map_of gs k") (simp_all add: Cons.IH map_of_group_add)
  next
    case False
    then show ?thesis
      by (cases "map_of gs k") (simp_all add: Cons.IH map_of_group_add)
  qed
qed

lemma map_of_sort_key_fst:
  fixes gs :: "('k::linorder \<times> 'v) list"
  assumes "distinct (map fst gs)"
  shows "map_of (sort_key fst gs) = map_of gs"
proof -
  have "mset (map fst (sort_key fst gs)) = mset (map fst gs)"
    by simp
  with assms have d: "distinct (map fst (sort_key fst gs))"
    using mset_eq_imp_distinct_iff by blast
  show ?thesis
  proof (rule ext)
    fix k
    show "map_of (sort_key fst gs) k = map_of gs k"
    proof (cases "map_of gs k")
      case None
      then have "k \<notin> fst ` set gs" by (simp add: map_of_eq_None_iff)
      then have "k \<notin> fst ` set (sort_key fst gs)" by simp
      then have "map_of (sort_key fst gs) k = None" by (metis map_of_eq_None_iff)
      with None show ?thesis by simp
    next
      case (Some v)
      with assms have "(k, v) \<in> set gs" by simp
      then have "(k, v) \<in> set (sort_key fst gs)" by simp
      with d have "map_of (sort_key fst gs) k = Some v" by simp
      with Some show ?thesis by simp
    qed
  qed
qed

lemma map_of_agg_first: "map_of (agg_first gs) k = map_option (find notna) (map_of gs k)"
  by (induction gs) (auto simp: agg_first_def)

lemma keys_agg_first: "map fst (agg_first gs) = map fst gs"
  by (induction gs) (auto simp: agg_first_def)

lemma map_of_dropna:
  "distinct (map fst xs) \<Longrightarrow>
     map_of (List.map_filter (\<lambda>(k, c). map_option (Pair k) c) xs) k =
       (case map_of xs k of Some (Some v) \<Rightarrow> Some v | _ \<Rightarrow> None)"
proof (induction xs)
  case Nil
  then show ?case by (simp add: List.map_filter_simps)
next
  case (Cons x xs)
  obtain k' c where x: "x = (k', c)" by (cases x)
  from Cons.prems x have notin: "k' \<notin> fst ` set xs" and d: "distinct (map fst xs)"
    by auto
  from notin have none: "map_of xs k' = None" by (metis map_of_eq_None_iff)
  show ?case
  proof (cases c)
    case None
    with x none Cons.IH [OF d] show ?thesis
      by (cases "k = k'") (simp_all add: List.map_filter_simps)
  next
    case (Some v)
    with x none Cons.IH [OF d] show ?thesis
      by (cases "k = k'") (simp_all add: List.map_filter_simps)
  qed
qed

lemma pivot_table_first_cell:
  fixes key :: "obs \<Rightarrow> 'k::linorder"
  shows "map_of (pivot_table_first key df) k = find notna (map Value (filter (\<lambda>r. key r = k) df))"
proof -
  let ?gs = "foldl (\<lambda>groups r. group_add (key r) (Value r) groups) [] df"
  let ?vs = "map Value (filter (\<lambda>r. key r = k) df)"
  have dg: "distinct (map fst ?gs)"
    by (rule distinct_groups) simp
  have "mset (map fst (sort_key fst ?gs)) = mset (map fst ?gs)"
    by simp
  with dg have "distinct (map fst (sort_key fst ?gs))"
    using mset_eq_imp_distinct_iff by blast
  then have da: "distinct (map fst (agg_first (groupby key df)))"
    by (simp add: keys_agg_first groupby_def)
  have g: "map_of (groupby key df) k = (if ?vs = [] then None else Some ?vs)"
    by (simp add: groupby_def map_of_sort_key_fst [OF dg] map_of_groups)
  have "map_of (pivot_table_first key df) k =
      (case map_option (find notna) (map_of (groupby key df) k) of
         Some (Some v) \<Rightarrow> Some v | _ \<Rightarrow> None)"
    by (simp add: pivot_table_first_def map_of_dropna [OF da] map_of_agg_first)
  also have "\<dots> = find notna ?vs"
  proof (cases "?vs = []")
    case True
    with g show ?thesis by simp
  next
    case False
    with g show ?thesis by (cases "find notna ?vs") simp_all
  qed
  finally show ?thesis .
qed

lemma pivot_first_encountered:
  assumes "filter (\<lambda>r. KPI r = kpi \<and> Year r = year) df = r # rest" and "notna (Value r)"
  shows "map_of (pivot_kpi_year df) (kpi, year) = Some (Value r)"
  using assms by (simp add: pivot_kpi_year_def pivot_table_first_cell)


section \<open>Claims\<close>

text \<open>
  C1. Every record an adapter returns has a year of 2015 or later; a response with
  observations for 2010, 2015 and 2024 yields the records for 2015 and 2024 only.
  The World Bank adapter has no such test: it asks the server for the range 2015 to
  2024 and keeps whatever year comes back. On the payload with the three years it
  returns all three records, the one for 2010 among them. (The WHO GHO and OECD adapters
  do test the year: \<open>adapter_year_ge_2015\<close>.)
\<close>

theorem world_bank_keeps_year_2010:
  "fst (extract_world_bank_data (json_net wb_years_payload) ''IND''
          ''Life expectancy at birth'' ''SP.DYN.LE00.IN'' world0) =
     [\<lparr>Year = 2010, Country = ''IND'', KPI = ''Life expectancy at birth'',
        Value = JInt 66, Source = ''World Bank''\<rparr>,
      \<lparr>Year = 2015, Country = ''IND'', KPI = ''Life expectancy at birth'',
        Value = JInt 68, Source = ''World Bank''\<rparr>,
      \<lparr>Year = 2024, Country = ''IND'', KPI = ''Life expectancy at birth'',
        Value = JInt 70, Source = ''World Bank''\<rparr>]"
  by code_simp

text \<open>
  C2. Every record an adapter returns has a value that is not null. The WHO GHO adapter
  copies \<open>NumericValue\<close> without looking at it: an observation of the requested country
  and a year from 2015 on whose \<open>NumericValue\<close> is null becomes a record with a null
  value. (The World Bank and OECD adapters drop such observations:
  \<open>adapter_value_present\<close>.)
\<close>

theorem who_gho_keeps_null_value:
  "fst (extract_who_gho_data (json_net who_null_payload) ''IND''
          ''DTP3 immunization coverage (%)'' ''WHS4_100'' world0) =
     [\<lparr>Year = 2020, Country = ''IND'', KPI = ''DTP3 immunization coverage (%)'',
        Value = JNull, Source = ''WHO GHO''\<rparr>]"
  by code_simp

text \<open>
  C3. The OECD adapter queries the health-protection dataset exactly when the KPI name
  contains "insurance" with letter case ignored, and the health-statistics dataset for
  every other name; the dataset identifier is the path segment after the base URL.
\<close>

theorem oecd_dataset_routing:
  "oecd_dataset kpi = (if contains_ci ''insurance'' kpi then health_prot else health_stat) \<and>
   (oecd_dataset kpi = health_prot) = contains_ci ''insurance'' kpi \<and>
   fst (oecd_request cc kpi code) =
     api_urls_OECD @ oecd_dataset kpi @ ''/'' @ cc @ ''.'' @ code @ ''.._T''"
proof -
  have low: "map lower_char ''insurance'' = ''insurance''"
    by (simp add: lower_char_def is_upper_def)
  have ne: "health_prot \<noteq> health_stat"
    by (simp add: health_prot_def health_stat_def)
  show ?thesis
    using py_in_lower [OF low, of kpi] ne
    by (simp add: oecd_dataset_def oecd_request_def)
qed

theorem oecd_dataset_routing_witness:
  "contains_ci ''insurance'' ''Private INSURANCE uptake'' \<and>
   oecd_dataset ''Private INSURANCE uptake'' = health_prot \<and>
   \<not> contains_ci ''insurance'' ''Hospital beds by function of healthcare'' \<and>
   oecd_dataset ''Hospital beds by function of healthcare'' = health_stat"
proof -
  have yes: "contains_ci ''insurance'' ''Private INSURANCE uptake''"
    by code_simp
  have no: "\<not> contains_ci ''insurance'' ''Hospital beds by function of healthcare''"
    by code_simp
  show ?thesis
    using oecd_dataset_routing [of "''Private INSURANCE uptake''"]
      oecd_dataset_routing [of "''Hospital beds by function of healthcare''"] yes no
    by simp
qed




text \<open>
  C5. Whatever the response, every record the WHO GHO adapter returns carries the
  requested country code and comes from an observation of the payload's \<open>value\<close> array
  whose \<open>SpatialDim\<close> is that code, with \<open>TimeDim\<close> read as the year and
  \<open>NumericValue\<close> as the value.
\<close>

theorem who_gho_only_requested_country:
  assumes "r \<in> set (fst (extract_who_gho_data net cc kpi code w))"
  shows "Country r = cc \<and>
         (\<exists>data csv v items item.
            net (length (requests w)) (who_gho_request code) = Answered (Inr data) csv \<and>
            subscript_str data ''value'' = Inr v \<and> iter v = Inr items \<and>
            item \<in> set items \<and> who_gho_maps kpi item r)"
proof -
  let ?resp = "net (length (requests w)) (who_gho_request code)"
  from assms obtain rs where rs: "who_gho_try cc kpi ?resp = Inr rs" and r: "r \<in> set rs"
    using adapter_mem [of r WHO_GHO net cc kpi code w] by auto
  from who_gho_try_mem [OF rs r] obtain data csv v items item new where
    "?resp = Answered (Inr data) csv" "subscript_str data ''value'' = Inr v"
    "iter v = Inr items" "item \<in> set items"
    "who_gho_item cc kpi item = Inr new" "r \<in> set new"
    by blast
  with who_gho_item_sound [of cc kpi item new r] show ?thesis by blast
qed

theorem who_gho_only_requested_country_witness:
  "fst (extract_who_gho_data (json_net who_countries_payload) ''IND''
          ''DTP3 immunization coverage (%)'' ''WHS4_100'' world0) =
     [\<lparr>Year = 2016, Country = ''IND'', KPI = ''DTP3 immunization coverage (%)'',
        Value = JInt 81, Source = ''WHO GHO''\<rparr>,
      \<lparr>Year = 2024, Country = ''IND'', KPI = ''DTP3 immunization coverage (%)'',
        Value = JInt 89, Source = ''WHO GHO''\<rparr>] \<and>
   (\<exists>data csv v items item.
      json_net who_countries_payload (length (requests world0)) (who_gho_request ''WHS4_100'') =
        Answered (Inr data) csv \<and>
      subscript_str data ''value'' = Inr v \<and> iter v = Inr items \<and> item \<in> set items \<and>
      who_gho_maps ''DTP3 immunization coverage (%)'' item
        \<lparr>Year = 2024, Country = ''IND'', KPI = ''DTP3 immunization coverage (%)'',
          Value = JInt 89, Source = ''WHO GHO''\<rparr>)"
proof -
  have tbl: "fst (extract_who_gho_data (json_net who_countries_payload) ''IND''
          ''DTP3 immunization coverage (%)'' ''WHS4_100'' world0) =
     [\<lparr>Year = 2016, Country = ''IND'', KPI = ''DTP3 immunization coverage (%)'',
        Value = JInt 81, Source = ''WHO GHO''\<rparr>,
      \<lparr>Year = 2024, Country = ''IND'', KPI = ''DTP3 immunization coverage (%)'',
        Value = JInt 89, Source = ''WHO GHO''\<rparr>]"
    by code_simp
  then have "\<lparr>Year = 2024, Country = ''IND'', KPI = ''DTP3 immunization coverage (%)'',
        Value = JInt 89, Source = ''WHO GHO''\<rparr> \<in>
      set (fst (extract_who_gho_data (json_net who_countries_payload) ''IND''
          ''DTP3 immunization coverage (%)'' ''WHS4_100'' world0))"
    by simp
  from who_gho_only_requested_country [OF this] tbl show ?thesis by blast
qed





text \<open>
  C8, as amended. A cell of the pivot (a KPI and a year, or a KPI, a country and a year)
  holds the first value, in table order, that is not null among the records sharing the
  cell; it is empty when there is none. So of two records with different values that are
  both present the first-encountered one is kept (\<open>pivot_first_encountered\<close>), and a
  null value is passed over.
\<close>

theorem pivot_keeps_first_non_null_value:
  "map_of (pivot_kpi_year df) (kpi, year) =
     find notna (map Value (filter (\<lambda>r. KPI r = kpi \<and> Year r = year) df)) \<and>
   map_of (pivot_kpi_country_year df) (kpi, country, year) =
     find notna (map Value (filter (\<lambda>r. KPI r = kpi \<and> Country r = country \<and> Year r = year) df))"
  by (simp add: pivot_kpi_year_def pivot_kpi_country_year_def pivot_table_first_cell)

theorem pivot_keeps_first_non_null_value_witness:
  "map Value two_values_table = [JInt 7, JInt 9] \<and>
   map_of (pivot_kpi_year two_values_table) (''DTP3 immunization coverage (%)'', 2020) =
     Some (JInt 7)"
proof -
  have v: "map Value two_values_table = [JInt 7, JInt 9]"
    by code_simp
  have f: "find notna (map Value (filter
      (\<lambda>r. KPI r = ''DTP3 immunization coverage (%)'' \<and> Year r = 2020) two_values_table)) =
      Some (JInt 7)"
    by code_simp
  from pivot_keeps_first_non_null_value
    [of two_values_table "''DTP3 immunization coverage (%)''" 2020 "''IND''"] f v
  show ?thesis by simp
qed

text \<open>
  C8 as stated fails when the first-encountered value is null. The WHO GHO adapter makes
  such a table from two observations of one country and year; the pivot shows the second
  value.
\<close>

theorem pivot_skips_null_counterexample:
  "fst (extract_all_data (json_net who_null_then_value_payload) kpis ''IND'' who_only world0) =
     Inr null_first_table \<and>
   map Value null_first_table = [JNull, JInt 9] \<and>
   map_of (pivot_kpi_year null_first_table) (''DTP3 immunization coverage (%)'', 2020) =
     Some (JInt 9)"
  by code_simp






end
